theory Spec2Isabelle
  imports Main
begin

section \<open>Exceptions and values crossing the API boundaries\<close>

text \<open>
  Every exception the embedded code can meet is an instance of Python's \<open>Exception\<close>:
  pydantic's \<open>ValidationError\<close>, the built-in \<open>ValueError\<close> and \<open>IndexError\<close>, the two
  classes of the \<open>wikipedia\<close> package that \<open>search_wikipedia\<close> names, and any other
  failure of a collaborator (network, parsing, rate limit, service fault). Each carries
  the text \<open>str(e)\<close> renders.
\<close>

datatype exn =
    ValidationError string
  | ValueError string
  | IndexError
  | DisambiguationError string "string list"
  | PageError string
  | OtherError string

fun exn_str :: "exn \<Rightarrow> string" where
  "exn_str (ValidationError m) = m"
| "exn_str (ValueError m) = m"
| "exn_str IndexError = ''list index out of range''"
| "exn_str (DisambiguationError m options) = m"
| "exn_str (PageError m) = m"
| "exn_str (OtherError m) = m"

text \<open>
  A value of the argument mapping of a tool call (\<open>Dict[str, Any]\<close>): a string, or any
  other value, kept by the text \<open>str\<close> renders for it.
\<close>

datatype argval = StrVal string | OtherVal string

fun py_str :: "argval \<Rightarrow> string" where
  "py_str (StrVal s) = s"
| "py_str (OtherVal s) = s"

definition quoted :: "string \<Rightarrow> string" where
  "quoted s = [CHR 0x27] @ s @ [CHR 0x27]"

fun str_join :: "string \<Rightarrow> string list \<Rightarrow> string" where
  "str_join sep [] = []"
| "str_join sep [x] = x"
| "str_join sep (x # y # ys) = x @ sep @ str_join sep (y # ys)"

section \<open>Transcript Store: \<open>Message\<close> and \<open>ConversationHistory\<close>\<close>

record Message =
  role :: string
  content :: string

text \<open>
  \<open>Message(role=role, content=content)\<close>: pydantic validates \<open>role\<close> against
  \<open>Literal["user", "model"]\<close> and raises \<open>ValidationError\<close> for any other string.
\<close>

definition Message_init :: "string \<Rightarrow> string \<Rightarrow> exn + Message" where
  "Message_init r c =
     (if r = ''user'' \<or> r = ''model''
      then Inr \<lparr>role = r, content = c\<rparr>
      else Inl (ValidationError ''role: input should be user or model''))"

record ConversationHistory =
  messages :: "Message list"

text \<open>\<open>ConversationHistory()\<close>: the default factory gives the empty list.\<close>

definition ConversationHistory_init :: ConversationHistory where
  "ConversationHistory_init = \<lparr>messages = []\<rparr>"

definition add_message :: "string \<Rightarrow> string \<Rightarrow> ConversationHistory \<Rightarrow> exn + ConversationHistory" where
  "add_message r c h =
     (case Message_init r c of
        Inl e \<Rightarrow> Inl e
      | Inr msg \<Rightarrow> Inr (h\<lparr>messages := messages h @ [msg]\<rparr>))"

definition get_gemini_history :: "ConversationHistory \<Rightarrow> (string \<times> string list) list" where
  "get_gemini_history h = map (\<lambda>msg. (role msg, [content msg])) (messages h)"

section \<open>The collaborators: model session and search provider\<close>

text \<open>
  A content part of a model response is plain text, a structured tool call (name and
  argument mapping) or something else (inline data, a function response). On a part
  that is no tool call \<open>function_call.name\<close> reads as the empty string, and on a part
  that is no text \<open>text\<close> reads as the empty string.
\<close>

datatype part =
    TextPart string
  | FunctionCallPart string "(string \<times> argval) list"
  | OtherPart

fun part_text :: "part \<Rightarrow> string" where
  "part_text (TextPart t) = t"
| "part_text (FunctionCallPart n a) = []"
| "part_text OtherPart = []"

record candidate =
  content_parts :: "part list"

text \<open>
  A response: its candidates, and what the \<open>.text\<close> accessor gives. \<open>None\<close> stands for
  the accessor raising \<open>ValueError\<close>, its failure when the response is not purely
  textual. The code indexes \<open>candidates[0]\<close> unguarded, so the candidates stay a list
  here. A reply that the session returns always has a candidate (\<open>send_message\<close>
  itself raises on a reply without one, and the provider contract gives every response
  a sequence of parts); a theorem that rests on this guarantee states it as a hypothesis
  on \<open>send_message\<close>.
\<close>

record response =
  candidates :: "candidate list"
  response_text :: "string option"

datatype outgoing =
    UserText string
  | FunctionResponse string string

text \<open>
  The collaborators are any functions over a world \<open>'w\<close> that holds whatever state
  they keep (the hidden history of a session, the network, the encyclopedia); \<open>'h\<close> is
  the handle of a chat session. A call returns its value or the exception it raises,
  and the world after it.
\<close>

record ('h, 'w) providers =
  start_chat :: "(string \<times> string list) list \<Rightarrow> 'w \<Rightarrow> 'h \<times> 'w"
  send_message :: "'h \<Rightarrow> outgoing \<Rightarrow> 'w \<Rightarrow> (exn + response) \<times> 'w"
  wikipedia_search :: "argval \<Rightarrow> nat \<Rightarrow> 'w \<Rightarrow> (exn + string list) \<times> 'w"
  wikipedia_summary :: "string \<Rightarrow> nat \<Rightarrow> bool \<Rightarrow> 'w \<Rightarrow> (exn + string) \<times> 'w"

section \<open>Lookup Tool: \<open>search_wikipedia\<close>\<close>

text \<open>
  The \<open>import wikipedia\<close> that opens the function is taken to succeed: the package is a
  dependency of the program. All that follows it stands inside the outer \<open>try\<close>.
\<close>

definition article_text :: "string \<Rightarrow> string \<Rightarrow> string" where
  "article_text title summary =
     ''Wikipedia article on '' @ quoted title @ '':'' @ [CHR 0x0A, CHR 0x0A] @ summary"

definition multiple_text :: "string list \<Rightarrow> string" where
  "multiple_text search_results =
     ''Found multiple articles. Top results: '' @ str_join '', '' (take 3 search_results)"

text \<open>
  The handler of \<open>DisambiguationError\<close>: an inner \<open>try\<close> whose bare \<open>except\<close> catches
  everything, the \<open>IndexError\<close> of \<open>e.options[0]\<close> on an empty option list included.
\<close>

definition on_disambiguation ::
  "('h, 'w) providers \<Rightarrow> string list \<Rightarrow> string list \<Rightarrow> 'w \<Rightarrow> (exn + string) \<times> 'w" where
  "on_disambiguation P search_results options w =
     (case options of
        [] \<Rightarrow> (Inr (multiple_text search_results), w)
      | opt # _ \<Rightarrow>
          (case wikipedia_summary P opt 5 False w of
             (Inr summary, w') \<Rightarrow> (Inr (article_text opt summary), w')
           | (Inl _, w') \<Rightarrow> (Inr (multiple_text search_results), w')))"

text \<open>
  The body of the outer \<open>try\<close>: an exception that no inner handler matches leaves it as
  \<open>Inl\<close>.
\<close>

definition search_wikipedia_try ::
  "('h, 'w) providers \<Rightarrow> argval \<Rightarrow> 'w \<Rightarrow> (exn + string) \<times> 'w" where
  "search_wikipedia_try P query w =
     (case wikipedia_search P query 3 w of
        (Inl e, w1) \<Rightarrow> (Inl e, w1)
      | (Inr search_results, w1) \<Rightarrow>
          (case search_results of
             [] \<Rightarrow> (Inr (''No results found for '' @ quoted (py_str query) @ '' on Wikipedia.''), w1)
           | title # _ \<Rightarrow>
               (case wikipedia_summary P title 5 False w1 of
                  (Inr summary, w2) \<Rightarrow> (Inr (article_text title summary), w2)
                | (Inl (DisambiguationError m options), w2) \<Rightarrow>
                    on_disambiguation P search_results options w2
                | (Inl (PageError m), w2) \<Rightarrow>
                    (Inr (''Could not retrieve page for '' @ quoted (py_str query) @ ''.''), w2)
                | (Inl e, w2) \<Rightarrow> (Inl e, w2))))"

text \<open>\<open>except Exception as e\<close> around the body.\<close>

definition search_wikipedia ::
  "('h, 'w) providers \<Rightarrow> argval \<Rightarrow> 'w \<Rightarrow> (exn + string) \<times> 'w" where
  "search_wikipedia P query w =
     (case search_wikipedia_try P query w of
        (Inl e, w') \<Rightarrow> (Inr (''Error searching Wikipedia: '' @ exn_str e), w')
      | (Inr s, w') \<Rightarrow> (Inr s, w'))"

section \<open>Tool dispatch: \<open>process_tool_call\<close>\<close>

text \<open>\<open>function_args.get("query", "")\<close> on the argument mapping.\<close>

definition get_query :: "(string \<times> argval) list \<Rightarrow> argval" where
  "get_query function_args =
     (case map_of function_args ''query'' of None \<Rightarrow> StrVal [] | Some v \<Rightarrow> v)"

definition process_tool_call ::
  "('h, 'w) providers \<Rightarrow> string \<Rightarrow> (string \<times> argval) list \<Rightarrow> 'w \<Rightarrow> (exn + string) \<times> 'w" where
  "process_tool_call P function_name function_args w =
     (if function_name = ''search_wikipedia''
      then search_wikipedia P (get_query function_args) w
      else (Inr (''Unknown function: '' @ function_name), w))"

section \<open>Conversational Agent: \<open>HomericAgent\<close>\<close>

record 'h HomericAgent =
  api_key :: string
  conversation :: ConversationHistory
  chat_session :: "'h option"

text \<open>
  \<open>__init__(api_key)\<close>, with the value of the environment variable \<open>GEMINI_API_KEY\<close>
  as second argument: \<open>api_key or os.getenv(...)\<close>, and \<open>ValueError\<close> when that is
  \<open>None\<close> or empty.
\<close>

definition HomericAgent_init :: "string option \<Rightarrow> string option \<Rightarrow> exn + 'h HomericAgent" where
  "HomericAgent_init key env_key =
     (let k = (case key of None \<Rightarrow> env_key | Some s \<Rightarrow> if s = [] then env_key else Some s)
      in case k of
           None \<Rightarrow> Inl (ValueError ''GEMINI_API_KEY environment variable must be set'')
         | Some s \<Rightarrow>
             if s = [] then Inl (ValueError ''GEMINI_API_KEY environment variable must be set'')
             else Inr \<lparr>api_key = s, conversation = ConversationHistory_init, chat_session = None\<rparr>)"

definition reset_conversation :: "'h HomericAgent \<Rightarrow> 'h HomericAgent" where
  "reset_conversation a = a\<lparr>conversation := ConversationHistory_init, chat_session := None\<rparr>"

subsection \<open>Tool-Call Resolver: the loop of \<open>chat\<close>\<close>

text \<open>
  What a call does to its collaborators is recorded beside its result: every run of
  \<open>process_tool_call\<close> with its arguments, and every message sent into the session
  with what came back.
\<close>

datatype event =
    Invoked string "(string \<times> argval) list"
  | Exchanged outgoing "exn + response"

fun is_invocation :: "event \<Rightarrow> bool" where
  "is_invocation (Invoked n a) = True"
| "is_invocation (Exchanged m r) = False"

definition max_iterations :: nat where
  "max_iterations = 5"

text \<open>One pass through the body of the \<open>while\<close> loop, on the response held.\<close>

datatype step = Break | Raise exn | Continue response

definition loop_body ::
  "('h, 'w) providers \<Rightarrow> 'h \<Rightarrow> response \<Rightarrow> 'w \<Rightarrow> step \<times> 'w \<times> event list" where
  "loop_body P h response w =
     (case candidates response of
        [] \<Rightarrow> (Raise IndexError, w, [])
      | c # _ \<Rightarrow>
          (case content_parts c of
             [] \<Rightarrow> (Break, w, [])
           | first_part # _ \<Rightarrow>
               (case first_part of
                  FunctionCallPart function_name function_args \<Rightarrow>
                    if function_name = [] then (Break, w, [])
                    else
                      (case process_tool_call P function_name function_args w of
                         (Inl e, w1) \<Rightarrow> (Raise e, w1, [Invoked function_name function_args])
                       | (Inr function_result, w1) \<Rightarrow>
                           (case send_message P h (FunctionResponse function_name function_result) w1 of
                              (Inl e, w2) \<Rightarrow>
                                (Raise e, w2,
                                 [Invoked function_name function_args,
                                  Exchanged (FunctionResponse function_name function_result) (Inl e)])
                            | (Inr response', w2) \<Rightarrow>
                                (Continue response', w2,
                                 [Invoked function_name function_args,
                                  Exchanged (FunctionResponse function_name function_result) (Inr response')])))
                | _ \<Rightarrow> (Break, w, []))))"

function tool_loop ::
  "('h, 'w) providers \<Rightarrow> 'h \<Rightarrow> nat \<Rightarrow> response \<Rightarrow> 'w \<Rightarrow> (exn + response) \<times> 'w \<times> event list" where
  "tool_loop P h iteration response w =
     (if iteration < max_iterations then
        (case loop_body P h response w of
           (Break, w1, tr) \<Rightarrow> (Inr response, w1, tr)
         | (Raise e, w1, tr) \<Rightarrow> (Inl e, w1, tr)
         | (Continue response', w1, tr) \<Rightarrow>
             (case tool_loop P h (Suc iteration) response' w1 of
                (res, w2, tr') \<Rightarrow> (res, w2, tr @ tr')))
      else (Inr response, w, []))"
  by pat_completeness auto
termination
  by (relation "measure (\<lambda>(P, h, iteration, response, w). max_iterations - iteration)") auto

declare tool_loop.simps [simp del]

subsection \<open>Final text and \<open>chat\<close>\<close>

text \<open>The \<open>for\<close> loop over the parts, run when \<open>response.text\<close> raised \<open>ValueError\<close>.\<close>

fun collect_text :: "part list \<Rightarrow> string \<Rightarrow> string" where
  "collect_text [] final_text = final_text"
| "collect_text (p # ps) final_text =
     collect_text ps (if part_text p \<noteq> [] then final_text @ part_text p else final_text)"

definition extract_final_text :: "response \<Rightarrow> exn + string" where
  "extract_final_text response =
     (case response_text response of
        Some t \<Rightarrow> Inr t
      | None \<Rightarrow>
          (case candidates response of
             [] \<Rightarrow> Inl IndexError
           | c # _ \<Rightarrow> Inr (collect_text (content_parts c) [])))"

text \<open>
  \<open>chat\<close> returns the final text or the exception raised, the agent and the world
  after the call, and the events of the call.
\<close>

definition ensure_session ::
  "('h, 'w) providers \<Rightarrow> 'h HomericAgent \<Rightarrow> 'w \<Rightarrow> 'h \<times> 'h HomericAgent \<times> 'w" where
  "ensure_session P a w =
     (case chat_session a of
        Some h \<Rightarrow> (h, a, w)
      | None \<Rightarrow>
          (case start_chat P (get_gemini_history (conversation a)) w of
             (h, w') \<Rightarrow> (h, a\<lparr>chat_session := Some h\<rparr>, w')))"

definition record_turn :: "string \<Rightarrow> string \<Rightarrow> 'h HomericAgent \<Rightarrow> exn + 'h HomericAgent" where
  "record_turn user_message final_text a =
     (case add_message ''user'' user_message (conversation a) of
        Inl e \<Rightarrow> Inl e
      | Inr c1 \<Rightarrow>
          (case add_message ''model'' final_text c1 of
             Inl e \<Rightarrow> Inl e
           | Inr c2 \<Rightarrow> Inr (a\<lparr>conversation := c2\<rparr>)))"

definition chat ::
  "('h, 'w) providers \<Rightarrow> string \<Rightarrow> 'h HomericAgent \<Rightarrow> 'w
     \<Rightarrow> (exn + string) \<times> 'h HomericAgent \<times> 'w \<times> event list" where
  "chat P user_message a w =
     (case ensure_session P a w of
        (h, a0, w0) \<Rightarrow>
          (case send_message P h (UserText user_message) w0 of
             (Inl e, w1) \<Rightarrow> (Inl e, a0, w1, [Exchanged (UserText user_message) (Inl e)])
           | (Inr response, w1) \<Rightarrow>
               (case tool_loop P h 0 response w1 of
                  (Inl e, w2, tr) \<Rightarrow>
                    (Inl e, a0, w2, Exchanged (UserText user_message) (Inr response) # tr)
                | (Inr final, w2, tr) \<Rightarrow>
                    (case extract_final_text final of
                       Inl e \<Rightarrow> (Inl e, a0, w2, Exchanged (UserText user_message) (Inr response) # tr)
                     | Inr final_text \<Rightarrow>
                         (case record_turn user_message final_text a0 of
                            Inl e \<Rightarrow>
                              (Inl e, a0, w2, Exchanged (UserText user_message) (Inr response) # tr)
                          | Inr a1 \<Rightarrow>
                              (Inr final_text, a1, w2,
                               Exchanged (UserText user_message) (Inr response) # tr))))))"

text \<open>
  The presentation layer calls \<open>chat\<close> once per user submission and catches what it
  raises; \<open>run_turns\<close> is that sequence of calls, with the result of each.
\<close>

fun run_turns ::
  "('h, 'w) providers \<Rightarrow> string list \<Rightarrow> 'h HomericAgent \<Rightarrow> 'w
     \<Rightarrow> (exn + string) list \<times> 'h HomericAgent \<times> 'w" where
  "run_turns P [] a w = ([], a, w)"
| "run_turns P (user_message # rest) a w =
     (case chat P user_message a w of
        (r, a1, w1, tr) \<Rightarrow>
          (case run_turns P rest a1 w1 of
             (rs, a2, w2) \<Rightarrow> (r # rs, a2, w2)))"

section \<open>Stubbed collaborators\<close>

text \<open>
  A scripted world: the replies the session will give to the messages sent, the
  results of the searches and of the summary fetches, each in the order of the calls,
  and the seed history of every session started. A call on an exhausted script fails.
\<close>

record script =
  replies :: "(exn + response) list"
  searches :: "(exn + string list) list"
  summaries :: "(exn + string) list"
  seeds :: "(string \<times> string list) list list"

definition scripted :: "(nat, script) providers" where
  "scripted =
     \<lparr>start_chat = (\<lambda>history w. (length (seeds w), w\<lparr>seeds := seeds w @ [history]\<rparr>)),
      send_message = (\<lambda>h msg w.
        case replies w of
          [] \<Rightarrow> (Inl (OtherError ''script exhausted''), w)
        | r # rs \<Rightarrow> (r, w\<lparr>replies := rs\<rparr>)),
      wikipedia_search = (\<lambda>query n w.
        case searches w of
          [] \<Rightarrow> (Inl (OtherError ''script exhausted''), w)
        | r # rs \<Rightarrow> (r, w\<lparr>searches := rs\<rparr>)),
      wikipedia_summary = (\<lambda>title n auto_suggest w.
        case summaries w of
          [] \<Rightarrow> (Inl (OtherError ''script exhausted''), w)
        | r # rs \<Rightarrow> (r, w\<lparr>summaries := rs\<rparr>))\<rparr>"

definition text_response :: "string \<Rightarrow> response" where
  "text_response t = \<lparr>candidates = [\<lparr>content_parts = [TextPart t]\<rparr>], response_text = Some t\<rparr>"

definition tool_call_response :: "string \<Rightarrow> (string \<times> argval) list \<Rightarrow> response" where
  "tool_call_response n args =
     \<lparr>candidates = [\<lparr>content_parts = [FunctionCallPart n args]\<rparr>], response_text = None\<rparr>"

text \<open>A response whose only part is neither text nor a tool call.\<close>

definition textless_response :: response where
  "textless_response = \<lparr>candidates = [\<lparr>content_parts = [OtherPart]\<rparr>], response_text = None\<rparr>"

definition new_agent :: "'h HomericAgent" where
  "new_agent = \<lparr>api_key = ''key'', conversation = ConversationHistory_init, chat_session = None\<rparr>"

definition replying :: "(exn + response) list \<Rightarrow> script" where
  "replying rs = \<lparr>replies = rs, searches = [], summaries = [], seeds = []\<rparr>"

text \<open>A model stubbed to request a tool call on every response, whatever it is sent.\<close>

definition insistent :: "(unit, unit) providers" where
  "insistent =
     \<lparr>start_chat = (\<lambda>history w. ((), w)),
      send_message = (\<lambda>h msg w. (Inr (tool_call_response ''search_wikipedia'' [(''query'', StrVal ''Troy'')]), w)),
      wikipedia_search = (\<lambda>query n w. (Inr [], w)),
      wikipedia_summary = (\<lambda>title n auto_suggest w. (Inl (PageError ''no page''), w))\<rparr>"

definition succeeded :: "exn + 'a \<Rightarrow> bool" where
  "succeeded r = (case r of Inl e \<Rightarrow> False | Inr v \<Rightarrow> True)"

text \<open>
  The example scenario: the model first asks for \<open>search_wikipedia(query="Achilles")\<close>,
  then answers in plain text; a second turn is answered at once.
\<close>

definition achilles_world :: script where
  "achilles_world =
     \<lparr>replies =
        [Inr (tool_call_response ''search_wikipedia'' [(''query'', StrVal ''Achilles'')]),
         Inr (text_response ''O mortal, hear of swift-footed Achilles...''),
         Inr (text_response ''Sing, O Muse, of Hector.'')],
      searches = [Inr [''Achilles'']],
      summaries = [Inr ''Achilles was a hero of the Trojan War.''],
      seeds = []\<rparr>"

text \<open>A search whose top result is ambiguous; the first option can be fetched.\<close>

definition mercury_world :: script where
  "mercury_world =
     \<lparr>replies = [],
      searches = [Inr [''Mercury'', ''Mercury (planet)'', ''Mercury (element)'']],
      summaries =
        [Inl (DisambiguationError ''Mercury may refer to'' [''Mercury (mythology)'', ''Mercury (planet)'']),
         Inr ''Mercury is a Roman god.''],
      seeds = []\<rparr>"

text \<open>The session fails on the submission of the first tool result.\<close>

definition outage_world :: script where
  "outage_world =
     replying [Inr (tool_call_response ''foo'' []), Inl (OtherError ''503 Service Unavailable'')]"

section \<open>Evaluating the stubs\<close>

lemmas stub_defs = scripted_def replying_def text_response_def tool_call_response_def
  textless_response_def new_agent_def

lemmas run_defs = chat_def ensure_session_def record_turn_def add_message_def Message_init_def
  extract_final_text_def loop_body_def process_tool_call_def search_wikipedia_def
  search_wikipedia_try_def on_disambiguation_def get_query_def get_gemini_history_def
  ConversationHistory_init_def max_iterations_def tool_loop.simps

section \<open>Transcript Store\<close>

text \<open>
  C6, as the code has it: \<open>add_message\<close> succeeds exactly for the two roles of the
  \<open>Literal\<close>, and then appends that one message at the end and changes nothing else;
  for any other role string it raises the validation error of \<open>Message\<close> and the store
  stays as it was. Clearing (a new \<open>ConversationHistory\<close>) cannot fail and gives the
  empty store.
\<close>

theorem add_message_validates_role:
  "add_message r c h =
     (if r = ''user'' \<or> r = ''model''
      then Inr (h\<lparr>messages := messages h @ [\<lparr>role = r, content = c\<rparr>]\<rparr>)
      else Inl (ValidationError ''role: input should be user or model''))
   \<and> messages ConversationHistory_init = []"
  by (simp add: add_message_def Message_init_def ConversationHistory_init_def)

text \<open>
  C6 as stated fails: the role string \<open>assistant\<close> (the one the presentation layer uses
  for its own display list) is refused.
\<close>

theorem add_message_counterexample:
  "\<not> (\<exists>h'. add_message ''assistant'' ''Sing, O Muse'' ConversationHistory_init = Inr h')"
  by (simp add: add_message_def Message_init_def)

section \<open>Lookup Tool\<close>

text \<open>
  C2: for every query, every behaviour of the search provider and every world,
  \<open>search_wikipedia\<close> returns a string; no exception leaves it.
\<close>

theorem search_wikipedia_never_raises:
  "\<exists>s w'. search_wikipedia P query w = (Inr s, w')"
  by (auto simp: search_wikipedia_def split: prod.splits sum.splits)

lemma search_wikipedia_no_results:
  "wikipedia_search P query 3 w = (Inr [], w') \<Longrightarrow>
     search_wikipedia P query w =
       (Inr (''No results found for '' @ quoted (py_str query) @ '' on Wikipedia.''), w')"
  by (simp add: search_wikipedia_def search_wikipedia_try_def)

lemma search_wikipedia_search_fails:
  "wikipedia_search P query 3 w = (Inl e, w') \<Longrightarrow>
     search_wikipedia P query w = (Inr (''Error searching Wikipedia: '' @ exn_str e), w')"
  by (simp add: search_wikipedia_def search_wikipedia_try_def)

lemma search_wikipedia_page_error:
  "wikipedia_search P query 3 w = (Inr (title # others), w1) \<Longrightarrow>
   wikipedia_summary P title 5 False w1 = (Inl (PageError m), w2) \<Longrightarrow>
     search_wikipedia P query w =
       (Inr (''Could not retrieve page for '' @ quoted (py_str query) @ ''.''), w2)"
  by (simp add: search_wikipedia_def search_wikipedia_try_def)



lemma disambiguation_second_failure:
  "search_wikipedia scripted (StrVal ''Mercury'')
     (mercury_world\<lparr>summaries :=
        [Inl (DisambiguationError ''Mercury may refer to'' [''Mercury (mythology)'']),
         Inl (PageError ''no page'')]\<rparr>) =
     (Inr ''Found multiple articles. Top results: Mercury, Mercury (planet), Mercury (element)'',
      mercury_world\<lparr>searches := [], summaries := []\<rparr>)"
  by (simp add: stub_defs run_defs mercury_world_def multiple_text_def)

section \<open>Tool dispatch\<close>

text \<open>
  C7: for every tool name other than \<open>search_wikipedia\<close> and every argument mapping,
  \<open>process_tool_call\<close> returns the string \<open>Unknown function: \<close> followed by the name,
  raises nothing and calls no collaborator (the world is unchanged).
\<close>

theorem unknown_tool_name:
  assumes "function_name \<noteq> ''search_wikipedia''"
  shows "process_tool_call P function_name function_args w =
           (Inr (''Unknown function: '' @ function_name), w)"
  using assms by (simp add: process_tool_call_def)

theorem unknown_tool_name_witness:
  "process_tool_call scripted ''foo'' [(''query'', StrVal ''Troy'')] achilles_world =
     (Inr ''Unknown function: foo'', achilles_world)"
proof -
  have h: "''foo'' \<noteq> ''search_wikipedia''" by simp
  show ?thesis
    using unknown_tool_name [OF h, of scripted "[(''query'', StrVal ''Troy'')]" achilles_world]
    by simp
qed

text \<open>
  C8: when the argument mapping has no key \<open>query\<close>, \<open>process_tool_call\<close> on the name
  \<open>search_wikipedia\<close> is the Lookup Tool run on the empty string.
\<close>

theorem missing_query_is_empty_string:
  assumes "map_of function_args ''query'' = None"
  shows "get_query function_args = StrVal [] \<and>
         process_tool_call P ''search_wikipedia'' function_args w =
           search_wikipedia P (StrVal []) w"
  using assms by (simp add: process_tool_call_def get_query_def)

theorem missing_query_is_empty_string_witness:
  "process_tool_call scripted ''search_wikipedia'' [(''topic'', StrVal ''Troy'')]
     (mercury_world\<lparr>searches := [Inr []]\<rparr>) =
     (Inr (''No results found for '' @ quoted [] @ '' on Wikipedia.''),
      mercury_world\<lparr>searches := []\<rparr>)"
proof -
  have h: "map_of [(''topic'', StrVal ''Troy'')] ''query'' = None" by simp
  have "search_wikipedia scripted (StrVal []) (mercury_world\<lparr>searches := [Inr []]\<rparr>) =
      (Inr (''No results found for '' @ quoted [] @ '' on Wikipedia.''),
       mercury_world\<lparr>searches := []\<rparr>)"
    by (simp add: stub_defs run_defs mercury_world_def)
  with missing_query_is_empty_string [OF h, of scripted "mercury_world\<lparr>searches := [Inr []]\<rparr>"]
  show ?thesis by simp
qed

section \<open>Conversational Agent: the transcript\<close>

lemma record_turn_appends:
  "record_turn user_message final_text a =
     Inr (a\<lparr>conversation := \<lparr>messages = messages (conversation a) @
            [\<lparr>role = ''user'', content = user_message\<rparr>,
             \<lparr>role = ''model'', content = final_text\<rparr>]\<rparr>\<rparr>)"
  by (simp add: record_turn_def add_message_def Message_init_def)

lemma ensure_session_conversation:
  "ensure_session P a w = (h, a0, w0) \<Longrightarrow> conversation a0 = conversation a"
  by (auto simp: ensure_session_def split: option.splits prod.splits)

lemma chat_failure_keeps_conversation:
  "chat P user_message a w = (Inl e, a', w', tr) \<Longrightarrow> conversation a' = conversation a"
  by (auto simp: chat_def record_turn_appends split: prod.splits sum.splits
      dest: ensure_session_conversation)

lemma chat_success_appends:
  "chat P user_message a w = (Inr t, a', w', tr) \<Longrightarrow>
     messages (conversation a') = messages (conversation a) @
       [\<lparr>role = ''user'', content = user_message\<rparr>, \<lparr>role = ''model'', content = t\<rparr>]"
  by (auto simp: chat_def record_turn_appends split: prod.splits sum.splits
      dest: ensure_session_conversation)

lemma run_turns_roles:
  "run_turns P inputs a w = (results, a', w') \<Longrightarrow>
     map role (messages (conversation a')) =
       map role (messages (conversation a)) @
       concat (replicate (length (filter succeeded results)) [''user'', ''model''])"
proof (induction inputs arbitrary: a w results a' w')
  case Nil
  then show ?case by simp
next
  case (Cons user_message rest)
  obtain r a1 w1 tr where c: "chat P user_message a w = (r, a1, w1, tr)"
    by (cases "chat P user_message a w") auto
  obtain rs a2 w2 where rt: "run_turns P rest a1 w1 = (rs, a2, w2)"
    by (cases "run_turns P rest a1 w1") auto
  from Cons.prems c rt have res: "results = r # rs" and a': "a' = a2" by simp_all
  note ih = Cons.IH [OF rt]
  show ?case
  proof (cases r)
    case (Inl e)
    with c have "conversation a1 = conversation a"
      by (auto dest: chat_failure_keeps_conversation)
    with ih res a' Inl show ?thesis by (simp add: succeeded_def)
  next
    case (Inr t)
    with c have "map role (messages (conversation a1)) =
        map role (messages (conversation a)) @ [''user'', ''model'']"
      by (auto dest: chat_success_appends)
    with ih res a' Inr show ?thesis by (simp add: succeeded_def)
  qed
qed

lemma length_concat_pairs: "length (concat (replicate n [x, y])) = 2 * n"
  by (induction n) simp_all

text \<open>
  C1: start from a fresh agent or from a reset one and make any sequence of \<open>chat\<close>
  calls, of which \<open>N\<close> succeed (a call that raises adds nothing). Then the Transcript
  Store holds exactly \<open>2N\<close> messages, and their roles are \<open>user\<close>, \<open>model\<close>, \<open>user\<close>,
  \<open>model\<close>, ...: strictly alternating, starting with a user message.
\<close>

theorem transcript_two_per_turn:
  assumes start: "a0 = reset_conversation a \<or> HomericAgent_init key env_key = Inr a0"
    and run: "run_turns P inputs a0 w = (results, a', w')"
    and N: "N = length (filter succeeded results)"
  shows "length (messages (conversation a')) = 2 * N \<and>
         map role (messages (conversation a')) = concat (replicate N [''user'', ''model''])"
proof -
  from start have "messages (conversation a0) = []"
    by (auto simp: reset_conversation_def HomericAgent_init_def ConversationHistory_init_def
        Let_def split: option.splits if_splits)
  with run_turns_roles [OF run] N
  have roles: "map role (messages (conversation a')) = concat (replicate N [''user'', ''model''])"
    by simp
  have "length (messages (conversation a')) = length (map role (messages (conversation a')))"
    by simp
  also have "\<dots> = 2 * N" unfolding roles by (rule length_concat_pairs)
  finally show ?thesis using roles by simp
qed

theorem transcript_two_per_turn_witness:
  "length (messages (conversation (fst (snd
     (run_turns scripted [''Who was Achilles?'', ''And Hector?''] new_agent achilles_world))))) = 4 \<and>
   map role (messages (conversation (fst (snd
     (run_turns scripted [''Who was Achilles?'', ''And Hector?''] new_agent achilles_world))))) =
     [''user'', ''model'', ''user'', ''model'']"
proof -
  define R where
    "R = run_turns scripted [''Who was Achilles?'', ''And Hector?''] new_agent achilles_world"
  have run: "run_turns scripted [''Who was Achilles?'', ''And Hector?''] new_agent achilles_world =
      (fst R, fst (snd R), snd (snd R))"
    by (simp add: R_def)
  have start: "(new_agent :: nat HomericAgent) = reset_conversation new_agent \<or>
      HomericAgent_init (Some ''key'') None = Inr (new_agent :: nat HomericAgent)"
    by (simp add: HomericAgent_init_def new_agent_def)
  have results: "fst R =
      [Inr ''O mortal, hear of swift-footed Achilles...'', Inr ''Sing, O Muse, of Hector.'']"
    unfolding R_def by (simp add: stub_defs run_defs achilles_world_def)
  have n: "2 = length (filter succeeded (fst R))"
    by (simp add: results succeeded_def)
  from transcript_two_per_turn [OF start run n]
  show ?thesis by (simp add: R_def numeral_2_eq_2)
qed

section \<open>Tool-Call Resolver\<close>

lemma loop_body_invocations:
  "loop_body P h r w = (st, w', tr) \<Longrightarrow> length (filter is_invocation tr) \<le> 1"
  by (auto simp: loop_body_def split: list.splits part.splits if_splits prod.splits sum.splits)

lemma tool_loop_invocations:
  "tool_loop P h i r w = (res, w', tr) \<Longrightarrow>
     length (filter is_invocation tr) \<le> max_iterations - i"
proof (induction P h i r w arbitrary: res w' tr rule: tool_loop.induct)
  case (1 P h iteration response w)
  note unfold = tool_loop.simps [of P h iteration response w]
  show ?case
  proof (cases "iteration < max_iterations")
    case False
    with "1.prems" show ?thesis by (simp add: unfold)
  next
    case True
    obtain st w1 tr1 where lb: "loop_body P h response w = (st, w1, tr1)"
      by (cases "loop_body P h response w") auto
    have one: "length (filter is_invocation tr1) \<le> 1"
      using lb by (rule loop_body_invocations)
    show ?thesis
    proof (cases st)
      case Break
      with "1.prems" True lb one show ?thesis by (simp add: unfold)
    next
      case (Raise e)
      with "1.prems" True lb one show ?thesis by (simp add: unfold)
    next
      case (Continue r')
      obtain res2 w2 tr2 where rec: "tool_loop P h (Suc iteration) r' w1 = (res2, w2, tr2)"
        by (cases "tool_loop P h (Suc iteration) r' w1") auto
      have "length (filter is_invocation tr2) \<le> max_iterations - Suc iteration"
        using "1.IH" [OF True lb [symmetric] _ _ rec] Continue by simp
      moreover have "tr = tr1 @ tr2"
        using "1.prems" True lb Continue rec by (simp add: unfold)
      ultimately show ?thesis using one True by simp
    qed
  qed
qed

text \<open>
  C3: whatever the model answers, one \<open>chat\<close> call runs \<open>process_tool_call\<close> at most 5
  times; and a loop that has reached the cap exits at once, keeping the response it
  holds as the final one, whatever its shape, without looking at it or calling anything.
\<close>

theorem resolver_at_most_five:
  assumes "chat P user_message a w = (res, a', w', tr)"
  shows "length (filter is_invocation tr) \<le> 5 \<and>
         tool_loop P h 5 held w1 = (Inr held, w1, [])"
proof
  have "length (filter is_invocation tr) \<le> max_iterations"
    using assms
    by (auto simp: chat_def split: prod.splits sum.splits dest: tool_loop_invocations)
  then show "length (filter is_invocation tr) \<le> 5" by (simp add: max_iterations_def)
  show "tool_loop P h 5 held w1 = (Inr held, w1, [])"
    by (simp add: tool_loop.simps [of P h 5] max_iterations_def)
qed

theorem resolver_at_most_five_witness:
  "length (filter is_invocation (snd (snd (snd (chat insistent ''Sing'' new_agent ()))))) \<le> 5 \<and>
   length (filter is_invocation (snd (snd (snd (chat insistent ''Sing'' new_agent ()))))) = 5 \<and>
   fst (chat insistent ''Sing'' new_agent ()) = Inr []"
proof -
  define R where "R = chat insistent ''Sing'' new_agent ()"
  have run: "chat insistent ''Sing'' new_agent () =
      (fst R, fst (snd R), fst (snd (snd R)), snd (snd (snd R)))"
    unfolding R_def by (cases "chat insistent ''Sing'' new_agent ()") auto
  have five: "length (filter is_invocation (snd (snd (snd R)))) = 5"
    unfolding R_def by (simp add: stub_defs run_defs insistent_def)
  have final: "fst R = Inr []"
    unfolding R_def by (simp add: stub_defs run_defs insistent_def)
  from resolver_at_most_five [OF run] five final
  show ?thesis by (simp add: R_def)
qed

section \<open>Session errors\<close>

lemma loop_body_failed_send:
  "loop_body P h r w = (st, w', tr) \<Longrightarrow> Exchanged msg (Inl e) \<in> set tr \<Longrightarrow> st = Raise e"
  by (auto simp: loop_body_def split: list.splits part.splits if_splits prod.splits sum.splits)

lemma tool_loop_failed_send:
  "tool_loop P h i r w = (res, w', tr) \<Longrightarrow> Exchanged msg (Inl e) \<in> set tr \<Longrightarrow> res = Inl e"
proof (induction P h i r w arbitrary: res w' tr rule: tool_loop.induct)
  case (1 P h iteration response w)
  note unfold = tool_loop.simps [of P h iteration response w]
  show ?case
  proof (cases "iteration < max_iterations")
    case False
    with "1.prems" show ?thesis by (simp add: unfold)
  next
    case True
    obtain st w1 tr1 where lb: "loop_body P h response w = (st, w1, tr1)"
      by (cases "loop_body P h response w") auto
    show ?thesis
    proof (cases st)
      case Break
      with "1.prems" True lb show ?thesis
        by (auto simp: unfold dest: loop_body_failed_send)
    next
      case (Raise e')
      with "1.prems" True lb show ?thesis
        by (auto simp: unfold dest: loop_body_failed_send)
    next
      case (Continue r')
      obtain res2 w2 tr2 where rec: "tool_loop P h (Suc iteration) r' w1 = (res2, w2, tr2)"
        by (cases "tool_loop P h (Suc iteration) r' w1") auto
      from "1.prems"(1) True lb Continue rec have eq: "res = res2" "tr = tr1 @ tr2"
        by (simp_all add: unfold)
      from lb Continue have "Exchanged msg (Inl e) \<notin> set tr1"
        by (auto dest: loop_body_failed_send)
      with "1.prems"(2) eq have "Exchanged msg (Inl e) \<in> set tr2" by simp
      with "1.IH" [OF True lb [symmetric] _ _ rec] Continue eq show ?thesis by simp
    qed
  qed
qed

lemma chat_first_send_fails:
  "ensure_session P a w = (h, a0, w0) \<Longrightarrow>
   send_message P h (UserText user_message) w0 = (Inl e, w1) \<Longrightarrow>
     chat P user_message a w = (Inl e, a0, w1, [Exchanged (UserText user_message) (Inl e)])"
  by (simp add: chat_def)

lemma loop_body_send_fails:
  "process_tool_call P n args w = (Inr result, w1) \<Longrightarrow> n \<noteq> [] \<Longrightarrow>
   send_message P h (FunctionResponse n result) w1 = (Inl e, w2) \<Longrightarrow>
   candidates r = c # cs \<Longrightarrow> content_parts c = FunctionCallPart n args # ps \<Longrightarrow>
     loop_body P h r w =
       (Raise e, w2, [Invoked n args, Exchanged (FunctionResponse n result) (Inl e)])"
  by (simp add: loop_body_def)

text \<open>
  C5: if any message sent into the session during a \<open>chat\<close> call (the user's text, or
  the result of a tool call inside the loop) is answered by an exception, then \<open>chat\<close>
  raises that same exception and the Transcript Store is what it was before the call.
\<close>

theorem session_failure_propagates:
  assumes "chat P user_message a w = (res, a', w', tr)"
    and "Exchanged msg (Inl e) \<in> set tr"
  shows "res = Inl e \<and> conversation a' = conversation a"
proof -
  have "res = Inl e"
    using assms
    by (auto simp: chat_def split: prod.splits sum.splits dest: tool_loop_failed_send)
  with assms(1) show ?thesis
    by (auto dest: chat_failure_keeps_conversation)
qed

theorem session_failure_propagates_witness:
  "fst (chat scripted ''Who was Achilles?'' new_agent outage_world) =
     Inl (OtherError ''503 Service Unavailable'') \<and>
   conversation (fst (snd (chat scripted ''Who was Achilles?'' new_agent outage_world))) =
     conversation (new_agent :: nat HomericAgent)"
proof -
  define R where "R = chat scripted ''Who was Achilles?'' new_agent outage_world"
  have run: "chat scripted ''Who was Achilles?'' new_agent outage_world =
      (fst R, fst (snd R), fst (snd (snd R)), snd (snd (snd R)))"
    by (simp add: R_def)
  have sent: "Exchanged (FunctionResponse ''foo'' ''Unknown function: foo'')
      (Inl (OtherError ''503 Service Unavailable'')) \<in> set (snd (snd (snd R)))"
    unfolding R_def by (simp add: stub_defs run_defs outage_world_def)
  from session_failure_propagates [OF run sent]
  show ?thesis by (simp add: R_def)
qed

section \<open>Reset\<close>

text \<open>
  C9: after \<open>reset_conversation\<close> the Transcript Store is empty and no session is held;
  the next \<open>chat\<close> call starts a session with the empty seed history and goes on with
  that session, so nothing of the earlier session or transcript is submitted again.
\<close>

theorem reset_starts_afresh:
  "messages (conversation (reset_conversation a)) = [] \<and>
   chat_session (reset_conversation a) = None \<and>
   chat P user_message (reset_conversation a) w =
     (case start_chat P [] w of
        (h, w') \<Rightarrow> chat P user_message ((reset_conversation a)\<lparr>chat_session := Some h\<rparr>) w')"
  by (simp add: reset_conversation_def ConversationHistory_init_def chat_def ensure_session_def
      get_gemini_history_def split: prod.splits)

lemma reset_seeds_empty_history:
  "seeds (snd (snd (run_turns scripted [''And Hector?'']
     (reset_conversation (fst (snd (run_turns scripted [''Who was Achilles?''] new_agent achilles_world))))
     (snd (snd (run_turns scripted [''Who was Achilles?''] new_agent achilles_world)))))) = [[], []]"
  by (simp add: stub_defs run_defs achilles_world_def reset_conversation_def)

section \<open>A final response without text\<close>

lemma collect_text_none:
  "list_all (\<lambda>p. part_text p = []) ps \<Longrightarrow> collect_text ps acc = acc"
  by (induction ps arbitrary: acc) simp_all

lemma chat_textless_final:
  assumes "ensure_session P a w = (h, a0, w0)"
    and "send_message P h (UserText user_message) w0 = (Inr response, w1)"
    and "tool_loop P h 0 response w1 = (Inr final, w2, tr)"
    and "response_text final = None"
    and "candidates final = c # cs"
    and "list_all (\<lambda>p. part_text p = []) (content_parts c)"
  shows "chat P user_message a w =
           (Inr [],
            a0\<lparr>conversation := \<lparr>messages = messages (conversation a) @
              [\<lparr>role = ''user'', content = user_message\<rparr>, \<lparr>role = ''model'', content = []\<rparr>]\<rparr>\<rparr>,
            w2, Exchanged (UserText user_message) (Inr response) # tr)"
  using assms
  by (auto simp: chat_def extract_final_text_def collect_text_none record_turn_appends
      dest: ensure_session_conversation)

lemma loop_body_continue_from_session:
  "loop_body P h r w = (Continue r', w', tr) \<Longrightarrow>
     \<exists>msg w1. send_message P h msg w1 = (Inr r', w')"
  by (auto simp: loop_body_def split: list.splits part.splits if_splits prod.splits sum.splits)

lemma tool_loop_final_has_candidate:
  assumes "\<And>h msg w r w'. send_message P h msg w = (Inr r, w') \<Longrightarrow> candidates r \<noteq> []"
    and "candidates response \<noteq> []"
    and "tool_loop P h i response w = (Inr final, w', tr)"
  shows "candidates final \<noteq> []"
  using assms
proof (induction P h i response w arbitrary: final w' tr rule: tool_loop.induct)
  case (1 P h iteration response w)
  note unfold = tool_loop.simps [of P h iteration response w]
  show ?case
  proof (cases "iteration < max_iterations")
    case False
    with "1.prems"(2,3) show ?thesis by (simp add: unfold)
  next
    case True
    obtain st w1 tr1 where lb: "loop_body P h response w = (st, w1, tr1)"
      by (cases "loop_body P h response w") auto
    show ?thesis
    proof (cases st)
      case Break
      with "1.prems"(2,3) True lb show ?thesis by (simp add: unfold)
    next
      case (Raise e)
      with "1.prems"(3) True lb show ?thesis by (simp add: unfold)
    next
      case (Continue r')
      obtain res2 w2 tr2 where rec: "tool_loop P h (Suc iteration) r' w1 = (res2, w2, tr2)"
        by (cases "tool_loop P h (Suc iteration) r' w1") auto
      from "1.prems"(3) True lb Continue rec have res2: "res2 = Inr final"
        by (simp add: unfold)
      from lb Continue obtain msg w0 where "send_message P h msg w0 = (Inr r', w1)"
        by (auto dest: loop_body_continue_from_session)
      then have r': "candidates r' \<noteq> []" by (rule "1.prems"(1))
      show ?thesis
        using "1.IH" [OF True lb [symmetric] _ _ "1.prems"(1) r'] Continue rec res2 by simp
    qed
  qed
qed

text \<open>
  C10: every reply of the session having a candidate, when the \<open>.text\<close> accessor of the
  final response fails and no part of the response carries non-empty text, \<open>chat\<close> still
  returns the empty string and appends the user message and a model message with empty
  content: the turn is recorded like any other.
\<close>

theorem empty_text_turn_recorded:
  assumes session: "\<And>h msg w r w'. send_message P h msg w = (Inr r, w') \<Longrightarrow> candidates r \<noteq> []"
    and "ensure_session P a w = (h, a0, w0)"
    and first: "send_message P h (UserText user_message) w0 = (Inr response, w1)"
    and loop: "tool_loop P h 0 response w1 = (Inr final, w2, tr)"
    and "response_text final = None"
    and parts: "list_all (\<lambda>p. part_text p = []) (content_parts (hd (candidates final)))"
  shows "chat P user_message a w =
           (Inr [],
            a0\<lparr>conversation := \<lparr>messages = messages (conversation a) @
              [\<lparr>role = ''user'', content = user_message\<rparr>, \<lparr>role = ''model'', content = []\<rparr>]\<rparr>\<rparr>,
            w2, Exchanged (UserText user_message) (Inr response) # tr)"
proof -
  from first have "candidates response \<noteq> []" by (rule session)
  with session have "candidates final \<noteq> []"
    using loop by (rule tool_loop_final_has_candidate)
  then obtain c cs where c: "candidates final = c # cs"
    by (cases "candidates final") auto
  with parts have "list_all (\<lambda>p. part_text p = []) (content_parts c)" by simp
  with assms(2) first loop assms(5) c show ?thesis by (rule chat_textless_final)
qed

theorem empty_text_turn_recorded_witness:
  "fst (chat insistent ''Sing'' new_agent ()) = Inr [] \<and>
   messages (conversation (fst (snd (chat insistent ''Sing'' new_agent ())))) =
     [\<lparr>role = ''user'', content = ''Sing''\<rparr>, \<lparr>role = ''model'', content = []\<rparr>]"
proof -
  define r where "r = tool_call_response ''search_wikipedia'' [(''query'', StrVal ''Troy'')]"
  define L where "L = tool_loop insistent () 0 r ()"
  have session: "\<And>h msg w r w'. send_message insistent h msg w = (Inr r, w') \<Longrightarrow> candidates r \<noteq> []"
    by (auto simp: insistent_def tool_call_response_def)
  have e: "ensure_session insistent new_agent () = ((), new_agent\<lparr>chat_session := Some ()\<rparr>, ())"
    by (simp add: ensure_session_def new_agent_def insistent_def)
  have s: "send_message insistent () (UserText ''Sing'') () = (Inr r, ())"
    by (simp add: insistent_def r_def)
  have l: "tool_loop insistent () 0 r () = (Inr r, (), snd (snd L))"
    unfolding L_def r_def by (simp add: stub_defs run_defs insistent_def)
  have t: "response_text r = None"
    by (simp add: r_def tool_call_response_def)
  have p: "list_all (\<lambda>p. part_text p = []) (content_parts (hd (candidates r)))"
    by (simp add: r_def tool_call_response_def)
  from empty_text_turn_recorded [OF session e s l t p]
  show ?thesis by (simp add: new_agent_def ConversationHistory_init_def)
qed

lemma textless_reply_recorded:
  "fst (chat scripted ''Sing'' new_agent (replying [Inr textless_response])) = Inr [] \<and>
   messages (conversation (fst (snd (chat scripted ''Sing'' new_agent (replying [Inr textless_response]))))) =
     [\<lparr>role = ''user'', content = ''Sing''\<rparr>, \<lparr>role = ''model'', content = []\<rparr>]"
  by (simp add: stub_defs run_defs)

end
